theory Spec2Isabelle
  imports Complex_Main "HOL-Library.Sublist"
begin

section \<open>Python strings and regular expressions used by the code\<close>

text \<open>
  Strings are lists of 8-bit characters. The character classes follow Python on the
  ASCII range: \<^verbatim>\<open>str.isspace\<close> and the regex class \<^verbatim>\<open>\s\<close> hold for the codes
  9 to 13, 28 to 31 and 32; \<^verbatim>\<open>\w\<close> holds for letters, digits and the underscore;
  \<^verbatim>\<open>lower\<close> maps A-Z to a-z. A character outside ASCII is neither whitespace nor a
  word character and has no case.
\<close>

definition is_space :: "char \<Rightarrow> bool" where
  "is_space c =
     (let n = (of_char c :: nat) in (9 \<le> n \<and> n \<le> 13) \<or> (28 \<le> n \<and> n \<le> 32))"

definition is_digit :: "char \<Rightarrow> bool" where
  "is_digit c = (c \<in> set ''0123456789'')"

definition is_upper :: "char \<Rightarrow> bool" where
  "is_upper c = (c \<in> set ''ABCDEFGHIJKLMNOPQRSTUVWXYZ'')"

definition is_lower :: "char \<Rightarrow> bool" where
  "is_lower c = (c \<in> set ''abcdefghijklmnopqrstuvwxyz'')"


definition lower_char :: "char \<Rightarrow> char" where
  "lower_char c =
     (case map_of (zip ''ABCDEFGHIJKLMNOPQRSTUVWXYZ'' ''abcdefghijklmnopqrstuvwxyz'') c of
        Some d \<Rightarrow> d
      | None \<Rightarrow> c)"

definition upper_char :: "char \<Rightarrow> char" where
  "upper_char c =
     (case map_of (zip ''abcdefghijklmnopqrstuvwxyz'' ''ABCDEFGHIJKLMNOPQRSTUVWXYZ'') c of
        Some d \<Rightarrow> d
      | None \<Rightarrow> c)"

text \<open>\<^verbatim>\<open>s.lower()\<close> and \<^verbatim>\<open>s.strip()\<close>.\<close>

definition py_lower :: "string \<Rightarrow> string" where
  "py_lower s = map lower_char s"

definition py_strip :: "string \<Rightarrow> string" where
  "py_strip s = rev (dropWhile is_space (rev (dropWhile is_space s)))"


text \<open>
  \<^verbatim>\<open>re.sub(r"\s+", " ", s)\<close>: the scan goes from left to right, every maximal run of
  whitespace becomes one space.
\<close>

function multispace_sub :: "string \<Rightarrow> string" where
  "multispace_sub [] = []"
| "multispace_sub (c # cs) =
     (if is_space c then CHR '' '' # multispace_sub (dropWhile is_space cs)
      else c # multispace_sub cs)"
  by pat_completeness auto
termination
  by (relation "measure length") (auto simp: length_dropWhile_le less_Suc_eq_le)


section \<open>Text cleaning (utils.py)\<close>






section \<open>Sentiment labelling (sentiment.py)\<close>

text \<open>
  A Python \<^verbatim>\<open>float\<close> is an IEEE double: a finite value, one of the two infinities,
  or a NaN. Finite values are kept as the real number they denote (the doubles are a
  subset of the reals), and the comparisons of Python are written out: every comparison
  with a NaN is false.
\<close>

datatype pyfloat = Finite real | PosInf | NegInf | NaN

fun float_ge :: "pyfloat \<Rightarrow> pyfloat \<Rightarrow> bool" where
  "float_ge NaN _ = False"
| "float_ge _ NaN = False"
| "float_ge PosInf _ = True"
| "float_ge _ NegInf = True"
| "float_ge NegInf _ = False"
| "float_ge _ PosInf = False"
| "float_ge (Finite x) (Finite y) = (y \<le> x)"

fun float_le :: "pyfloat \<Rightarrow> pyfloat \<Rightarrow> bool" where
  "float_le a b = float_ge b a"

text \<open>
  The literal \<^verbatim>\<open>0.05\<close> denotes the double nearest to 1/20, which is
  3602879701896397 / 2^56; \<^verbatim>\<open>-0.05\<close> is its negation.
\<close>

definition lit_0_05 :: pyfloat where
  "lit_0_05 = Finite (3602879701896397 / 72057594037927936)"

definition lit_neg_0_05 :: pyfloat where
  "lit_neg_0_05 = Finite (- (3602879701896397 / 72057594037927936))"

definition score_to_label :: "pyfloat \<Rightarrow> string" where
  "score_to_label compound =
     (if float_ge compound lit_0_05 then ''Positive''
      else if float_le compound lit_neg_0_05 then ''Negative''
      else ''Neutral'')"

section \<open>Exceptions\<close>

text \<open>
  An HTTP response as the \<^verbatim>\<open>requests\<close> library hands it to Tweepy: the status code
  and the headers. The library keeps the headers in a dictionary whose \<^verbatim>\<open>get\<close>
  ignores the case of the name. The truth value of a response, which \<^verbatim>\<open>not resp\<close>
  reads, is the library's \<^verbatim>\<open>Response.__bool__\<close>, that is \<^verbatim>\<open>Response.ok\<close>:
  false when the status is a client or server error (400 to 599).
\<close>

record http_response =
  status_code :: int
  headers :: "(string \<times> string) list"

definition header_get :: "(string \<times> string) list \<Rightarrow> string \<Rightarrow> string option" where
  "header_get hs name = map_of (map (\<lambda>(k, v). (py_lower k, v)) hs) (py_lower name)"

definition response_bool :: "http_response \<Rightarrow> bool" where
  "response_bool r = (\<not> (400 \<le> status_code r \<and> status_code r < 600))"

text \<open>
  The exceptions that the code raises, catches or lets through.
  \<^verbatim>\<open>TooManyRequests\<close> is Tweepy's exception for the status 429 and carries the
  response; \<open>TweepyException\<close> stands for every other exception of Tweepy's hierarchy,
  \<open>OtherException\<close> for an exception outside of it.
\<close>

datatype exn =
    TooManyRequests http_response
  | TweepyException
  | OtherException
  | RateLimitError "int option"
  | RuntimeError string
  | ValueError
  | IndexError
  | OSError
  | JSONDecodeError

section \<open>Domain classification (domain.py)\<close>

subsection \<open>Label normalisation\<close>

text \<open>
  \<^verbatim>\<open>s.title()\<close>: a cased character is lowercased when the character before it is
  cased and uppercased otherwise; the flag says whether the previous character is cased.
\<close>

fun py_title_from :: "bool \<Rightarrow> string \<Rightarrow> string" where
  "py_title_from previous_is_cased [] = []"
| "py_title_from previous_is_cased (c # cs) =
     (if previous_is_cased then lower_char c else upper_char c)
       # py_title_from (is_upper c \<or> is_lower c) cs"

definition py_title :: "string \<Rightarrow> string" where
  "py_title s = py_title_from False s"

definition normalize_label :: "string \<Rightarrow> string" where
  "normalize_label label = py_title (multispace_sub (py_strip label))"

subsection \<open>Dictionaries and the built-in lexicon\<close>

text \<open>
  A Python dictionary keeps its keys in insertion order, and an assignment to a key that
  is present keeps the key's position. It is modelled as an association list with that
  assignment; \<^verbatim>\<open>d.get(k, default)\<close> reads the first entry of the key.
\<close>

fun dict_set :: "('k \<times> 'v) list \<Rightarrow> 'k \<Rightarrow> 'v \<Rightarrow> ('k \<times> 'v) list" where
  "dict_set [] k v = [(k, v)]"
| "dict_set ((k', v') # d) k v =
     (if k' = k then (k, v) # d else (k', v') # dict_set d k v)"


text \<open>The dictionary comprehension \<^verbatim>\<open>{k: f(k) for k in ks}\<close>.\<close>

definition dict_comp :: "('k \<Rightarrow> 'v) \<Rightarrow> 'k list \<Rightarrow> ('k \<times> 'v) list" where
  "dict_comp f ks = foldl (\<lambda>d k. dict_set d k (f k)) [] ks"

type_synonym lexicon = "(string \<times> string list) list"

definition DEFAULT_DOMAIN_LABELS :: "string list" where
  "DEFAULT_DOMAIN_LABELS =
     [''Politics'', ''Sports'', ''Education'', ''Technology'', ''Entertainment'',
      ''Business'', ''Health'', ''Science'', ''Travel'', ''Environment'']"

definition KEYWORD_LEXICON :: lexicon where
  "KEYWORD_LEXICON =
     [(''Politics'',
        [''election'', ''policy'', ''government'', ''senate'', ''parliament'', ''minister'',
         ''president'', ''vote'', ''campaign'', ''politics'', ''congress'', ''diplomacy'',
         ''democracy'']),
      (''Sports'',
        [''match'', ''game'', ''tournament'', ''league'', ''goal'', ''score'', ''coach'',
         ''athlete'', ''football'', ''soccer'', ''nba'', ''cricket'', ''tennis'',
         ''olympics'']),
      (''Education'',
        [''school'', ''college'', ''university'', ''curriculum'', ''exam'', ''teacher'',
         ''student'', ''degree'', ''research'', ''scholarship'', ''classroom'']),
      (''Technology'',
        [''ai'', ''artificial intelligence'', ''software'', ''hardware'', ''app'',
         ''coding'', ''programming'', ''cloud'', ''saas'', ''api'', ''data'', ''ml'',
         ''blockchain'', ''crypto'', ''startup'']),
      (''Entertainment'',
        [''movie'', ''film'', ''music'', ''album'', ''song'', ''celebrity'', ''tv'',
         ''series'', ''hollywood'', ''bollywood'', ''concert'', ''festival'']),
      (''Business'',
        [''market'', ''stock'', ''revenue'', ''profit'', ''merger'', ''acquisition'',
         ''startup'', ''funding'', ''economy'', ''inflation'', ''trade'', ''sales'',
         ''earnings'']),
      (''Health'',
        [''hospital'', ''doctor'', ''nurse'', ''vaccine'', ''covid'', ''disease'',
         ''medicine'', ''mental health'', ''fitness'', ''diet'', ''wellness'']),
      (''Science'',
        [''research'', ''study'', ''experiment'', ''theory'', ''physics'', ''chemistry'',
         ''biology'', ''astronomy'', ''space'', ''quantum'', ''lab'']),
      (''Travel'',
        [''flight'', ''airport'', ''hotel'', ''tour'', ''trip'', ''journey'', ''visa'',
         ''tourism'', ''itinerary'']),
      (''Environment'',
        [''climate'', ''emissions'', ''sustainability'', ''wildlife'', ''conservation'',
         ''pollution'', ''renewable'', ''recycling'', ''ecosystem''])]"

subsection \<open>The lexicon override file\<close>

text \<open>
  A parsed JSON value as \<^verbatim>\<open>json.load\<close> returns it; an object is a dictionary and
  holds its members in order.
\<close>

datatype json =
    JNull
  | JBool bool
  | JInt int
  | JFloat pyfloat
  | JStr string
  | JArr "json list"
  | JObj "(string \<times> json) list"

text \<open>
  What the loader finds at the path: no file, a file that cannot be opened or read, a
  file that is not JSON, or a file with a JSON value.
\<close>

datatype file_state = Missing | Unreadable | Malformed | Parsed json

text \<open>
  \<^verbatim>\<open>str(k)\<close> of a keyword: a string is itself; the rendering of any other JSON value
  is the parameter \<open>str_of\<close>.
\<close>

definition py_str :: "(json \<Rightarrow> string) \<Rightarrow> json \<Rightarrow> string" where
  "py_str str_of k = (case k of JStr s \<Rightarrow> s | _ \<Rightarrow> str_of k)"

text \<open>
  The body of the loop over \<^verbatim>\<open>data.items()\<close>; \<open>lexd\<close> is the dictionary \<open>lex\<close>
  of the source. The keys of a JSON object are strings.
\<close>

definition lexicon_add ::
  "(json \<Rightarrow> string) \<Rightarrow> lexicon \<Rightarrow> string \<times> json \<Rightarrow> lexicon" where
  "lexicon_add str_of lexd item =
     (let label = normalize_label (fst item)
      in case snd item of
           JArr keywords \<Rightarrow>
             (let kw = map (\<lambda>k. py_lower (py_strip (py_str str_of k)))
                        (filter (\<lambda>k. py_strip (py_str str_of k) \<noteq> []) keywords)
              in if kw \<noteq> [] then dict_set lexd label kw else lexd)
         | _ \<Rightarrow> lexd)"

text \<open>
  The statements inside the \<^verbatim>\<open>try\<close>: an exception is the left summand, a returned
  value the right one.
\<close>

definition is_dict :: "json \<Rightarrow> bool" where
  "is_dict j = (case j of JObj _ \<Rightarrow> True | _ \<Rightarrow> False)"

definition dict_items :: "json \<Rightarrow> (string \<times> json) list" where
  "dict_items j = (case j of JObj items \<Rightarrow> items | _ \<Rightarrow> [])"

definition load_external_lexicon_try ::
  "(json \<Rightarrow> string) \<Rightarrow> file_state \<Rightarrow> exn + lexicon option" where
  "load_external_lexicon_try str_of file =
     (case file of
        Missing \<Rightarrow> Inr None
      | Unreadable \<Rightarrow> Inl OSError
      | Malformed \<Rightarrow> Inl JSONDecodeError
      | Parsed j \<Rightarrow>
          if \<not> is_dict j then Inr None
          else
            (let lexd = foldl (lexicon_add str_of) [] (dict_items j)
             in Inr (if lexd \<noteq> [] then Some lexd else None)))"

text \<open>\<open>_load_external_lexicon\<close>: the \<^verbatim>\<open>except Exception\<close> returns \<^verbatim>\<open>None\<close>.\<close>

definition load_external_lexicon ::
  "(json \<Rightarrow> string) \<Rightarrow> file_state \<Rightarrow> lexicon option" where
  "load_external_lexicon str_of file =
     (case load_external_lexicon_try str_of file of
        Inl e \<Rightarrow> None
      | Inr r \<Rightarrow> r)"

text \<open>
  The module's import-time override: the pair of \<open>KEYWORD_LEXICON\<close> and
  \<open>DEFAULT_DOMAIN_LABELS\<close> that is in effect afterwards.
\<close>

definition module_lexicon ::
  "(json \<Rightarrow> string) \<Rightarrow> file_state \<Rightarrow> lexicon \<times> string list" where
  "module_lexicon str_of file =
     (case load_external_lexicon str_of file of
        Some external \<Rightarrow>
          (if external \<noteq> [] then (external, map fst external)
           else (KEYWORD_LEXICON, DEFAULT_DOMAIN_LABELS))
      | None \<Rightarrow> (KEYWORD_LEXICON, DEFAULT_DOMAIN_LABELS))"

subsection \<open>Keyword strategy\<close>








subsection \<open>Zero-shot strategy and the dispatch\<close>







subsection \<open>Auxiliary notions\<close>

text \<open>
  The keys of a dictionary comprehension: a key is appended when it is seen for the first
  time.
\<close>

definition add_key :: "'k list \<Rightarrow> 'k \<Rightarrow> 'k list" where
  "add_key ks k = (if k \<in> set ks then ks else ks @ [k])"

section \<open>Fetch client (twitter_client.py)\<close>

subsection \<open>The retry hint\<close>

text \<open>
  \<^verbatim>\<open>s.isdigit()\<close> (non-empty, digits only) and \<^verbatim>\<open>int(s)\<close> for such a string, on
  ASCII text.
\<close>

definition py_isdigit :: "string \<Rightarrow> bool" where
  "py_isdigit s = (s \<noteq> [] \<and> list_all is_digit s)"

definition digit_value :: "char \<Rightarrow> int" where
  "digit_value c =
     (case map_of (zip ''0123456789'' [0, 1, 2, 3, 4, 5, 6, 7, 8, 9]) c of
        Some d \<Rightarrow> d
      | None \<Rightarrow> 0)"

definition py_int :: "string \<Rightarrow> int" where
  "py_int s = foldl (\<lambda>n c. 10 * n + digit_value c) 0 s"

text \<open>
  \<^verbatim>\<open>a or b\<close> on optional strings: \<open>a\<close> when it is a non-empty string, else \<open>b\<close>.
\<close>

definition str_or :: "string option \<Rightarrow> string option \<Rightarrow> string option" where
  "str_or a b = (case a of Some v \<Rightarrow> if v \<noteq> [] then a else b | None \<Rightarrow> b)"

definition str_truthy :: "string option \<Rightarrow> bool" where
  "str_truthy a = (case a of Some v \<Rightarrow> v \<noteq> [] | None \<Rightarrow> False)"

text \<open>\<^verbatim>\<open>getattr(e, "response", None)\<close>.\<close>

definition exn_response :: "exn \<Rightarrow> http_response option" where
  "exn_response e = (case e of TooManyRequests r \<Rightarrow> Some r | _ \<Rightarrow> None)"

text \<open>
  \<open>_retry_after_from_response\<close>; \<open>now\<close> is \<^verbatim>\<open>int(time())\<close>. The response of the
  model always has headers, and on ASCII digit strings \<^verbatim>\<open>int\<close> does not raise, so
  the \<^verbatim>\<open>except\<close> branch is not taken.
\<close>

definition retry_after_from_response :: "int \<Rightarrow> exn \<Rightarrow> int option" where
  "retry_after_from_response now e =
     (case exn_response e of
        None \<Rightarrow> None
      | Some resp \<Rightarrow>
          if \<not> response_bool resp then None
          else
            let hs = headers resp;
                retry_after = str_or (header_get hs ''retry-after'') (header_get hs ''Retry-After'')
            in if str_truthy retry_after \<and> py_isdigit (the retry_after)
               then Some (py_int (the retry_after))
               else
                 let reset_epoch =
                       str_or (header_get hs ''x-rate-limit-reset'')
                              (header_get hs ''X-Rate-Limit-Reset'')
                 in if str_truthy reset_epoch \<and> py_isdigit (the reset_epoch)
                    then Some (max 0 (py_int (the reset_epoch) - now))
                    else None)"

subsection \<open>Resolving a user name\<close>

text \<open>
  \<open>get_user\<close> is the call \<^verbatim>\<open>self.client.get_user(username=...)\<close>: it raises or
  returns the \<open>data\<close> of the response, which is \<^verbatim>\<open>None\<close> for an unknown user.
  \<^verbatim>\<open>TooManyRequests\<close> is caught first; every other Tweepy exception becomes a
  \<^verbatim>\<open>RuntimeError\<close>; an exception outside Tweepy's hierarchy passes through.
\<close>

definition get_user_by_username ::
  "int \<Rightarrow> (string \<Rightarrow> exn + 'u option) \<Rightarrow> string \<Rightarrow> exn + 'u option" where
  "get_user_by_username now get_user username =
     (case get_user username of
        Inr data \<Rightarrow> Inr data
      | Inl e \<Rightarrow>
          (case e of
             TooManyRequests r \<Rightarrow> Inl (RateLimitError (retry_after_from_response now e))
           | TweepyException \<Rightarrow>
               Inl (RuntimeError (''Error fetching user '' @ [CHR 0x27] @ username @ [CHR 0x27]))
           | _ \<Rightarrow> Inl e))"

subsection \<open>Fetching the posts of a user\<close>

text \<open>
  The keyword arguments of \<^verbatim>\<open>self.client.get_users_tweets\<close> and the two parts of
  its response that the loop reads: \<open>data\<close>, a list of tweets or \<^verbatim>\<open>None\<close>, and
  \<open>meta\<close>, a dictionary. A time stamp is a number.
\<close>

record tweets_request =
  user_id :: string
  max_results :: int
  exclude :: "string list option"
  start_time :: "int option"
  end_time :: "int option"
  tweet_fields :: "string list"
  pagination_token :: "string option"

record 'tw tweets_response =
  data :: "'tw list option"
  meta :: "(string \<times> string) list"

text \<open>
  The upstream API answers a request by raising or by a response. Its answer may depend
  on everything it was asked before, so it is a function of the requests made so far,
  the current one last.
\<close>

type_synonym 'tw upstream = "tweets_request list \<Rightarrow> exn + 'tw tweets_response"

text \<open>\<^verbatim>\<open>resp.meta.get("next_token") if resp.meta else None\<close>.\<close>

definition next_token :: "'tw tweets_response \<Rightarrow> string option" where
  "next_token resp = (if meta resp \<noteq> [] then map_of (meta resp) ''next_token'' else None)"

text \<open>
  The \<^verbatim>\<open>while\<close> loop of \<open>get_user_tweets\<close>. \<open>base\<close> holds the arguments that
  are the same in every call, \<open>sent\<close> the requests made so far. The result is what the
  function returns or raises, with the requests made; a loop that never ends has the
  value \<open>None\<close>. The call is not inside a \<^verbatim>\<open>try\<close>: what the API raises leaves the
  function as it is.
\<close>

partial_function (option) get_user_tweets_loop ::
  "'tw upstream \<Rightarrow> tweets_request \<Rightarrow> tweets_request list \<Rightarrow> 'tw list \<Rightarrow> string option
     \<Rightarrow> int \<Rightarrow> ((exn + 'tw list) \<times> tweets_request list) option" where
  "get_user_tweets_loop client base sent collected token remaining =
     (if remaining > 0 then
        (let limit = min 100 remaining;
             sent' = sent @ [base\<lparr>max_results := limit, pagination_token := token\<rparr>]
         in case client sent' of
              Inl e \<Rightarrow> Some (Inl e, sent')
            | Inr resp \<Rightarrow>
                (case data resp of
                   None \<Rightarrow> Some (Inr collected, sent')
                 | Some page \<Rightarrow>
                     (let collected' = collected @ page;
                          remaining' = remaining - int (length page);
                          token' = next_token resp
                      in if \<not> str_truthy token' then Some (Inr collected', sent')
                         else get_user_tweets_loop client base sent' collected' token'
                                remaining')))
      else Some (Inr collected, sent))"

declare get_user_tweets_loop.simps [code]

definition get_user_tweets ::
  "'tw upstream \<Rightarrow> string \<Rightarrow> int \<Rightarrow> bool \<Rightarrow> bool \<Rightarrow> int option \<Rightarrow> int option
     \<Rightarrow> ((exn + 'tw list) \<times> tweets_request list) option" where
  "get_user_tweets client uid max_res exclude_replies exclude_retweets start end =
     (let excl = (if exclude_replies then [''replies''] else [])
                   @ (if exclude_retweets then [''retweets''] else []);
          base = \<lparr>user_id = uid, max_results = 0,
                  exclude = (if excl \<noteq> [] then Some excl else None),
                  start_time = start, end_time = end,
                  tweet_fields = [''created_at'', ''public_metrics''],
                  pagination_token = None\<rparr>;
          remaining = max 1 max_res
      in get_user_tweets_loop client base [] [] None remaining)"


definition no_empty_page_with_token :: "'tw upstream \<Rightarrow> bool" where
  "no_empty_page_with_token client =
     (\<forall>sent resp.
        client sent = Inr resp \<and> data resp = Some [] \<longrightarrow> \<not> str_truthy (next_token resp))"

definition pagination_ends_by :: "nat \<Rightarrow> 'tw upstream \<Rightarrow> bool" where
  "pagination_ends_by n client =
     (\<forall>sent resp.
        n \<le> length sent \<and> client sent = Inr resp
          \<longrightarrow> data resp = None \<or> \<not> str_truthy (next_token resp))"

subsection \<open>Sample responses and upstream APIs\<close>

text \<open>
  A rate-limit response with a \<open>retry-after\<close> header, as Tweepy wraps it in
  \<^verbatim>\<open>TooManyRequests\<close>, and an upstream API that answers every request with it.
\<close>

definition rate_limit_response :: http_response where
  "rate_limit_response = \<lparr>status_code = 429, headers = [(''retry-after'', ''30'')]\<rparr>"

definition rate_limited :: "string upstream" where
  "rate_limited = (\<lambda>sent. Inl (TooManyRequests rate_limit_response))"

text \<open>
  An upstream API with a feed of four posts on two pages. It rejects a page size below
  one, and never returns more items than asked for.
\<close>

definition two_pages :: "string upstream" where
  "two_pages =
     (\<lambda>sent.
        let req = last sent
        in if max_results req \<le> 0 then Inl TweepyException
           else case pagination_token req of
                  None \<Rightarrow>
                    Inr \<lparr>data = Some (take (nat (max_results req)) [''p1'', ''p2'']),
                         meta = [(''result_count'', ''2''), (''next_token'', ''page2'')]\<rparr>
                | Some t \<Rightarrow>
                    Inr \<lparr>data = Some (take (nat (max_results req)) [''p3'', ''p4'']),
                         meta = [(''result_count'', ''2'')]\<rparr>)"

text \<open>
  An upstream API that answers the first request with a page of two posts and a token,
  the second with a last page of one post, and any later request without data.
\<close>

definition finite_feed :: "string upstream" where
  "finite_feed =
     (\<lambda>sent.
        if length sent = 1
        then Inr \<lparr>data = Some [''p1'', ''p2''], meta = [(''next_token'', ''page2'')]\<rparr>
        else if length sent = 2 then Inr \<lparr>data = Some [''p3''], meta = []\<rparr>
        else Inr \<lparr>data = None, meta = []\<rparr>)"

text \<open>An upstream API whose every page is an empty list with a continuation token.\<close>

definition empty_pages :: "string upstream" where
  "empty_pages = (\<lambda>sent. Inr \<lparr>data = Some [], meta = [(''next_token'', ''t'')]\<rparr>)"

text \<open>The request that \<open>get_user_tweets\<close> builds for the user \<open>42\<close> with both filters.\<close>

definition request_42 :: "int \<Rightarrow> string option \<Rightarrow> tweets_request" where
  "request_42 limit token =
     \<lparr>user_id = ''42'', max_results = limit, exclude = Some [''replies'', ''retweets''],
      start_time = None, end_time = None,
      tweet_fields = [''created_at'', ''public_metrics''], pagination_token = token\<rparr>"

section \<open>Properties of the text cleaning\<close>

subsection \<open>Characters that the later steps cannot bring back\<close>

lemma lower_char_space [simp]: "is_space (lower_char c) = is_space c"
  by (auto simp: lower_char_def is_space_def split: option.splits if_splits)

lemma lower_char_idem [simp]: "lower_char (lower_char c) = lower_char c"
  by (auto simp: lower_char_def split: option.splits if_splits)






subsection \<open>Whitespace: collapsing, trimming and lowercasing are stable\<close>



















section \<open>Properties of the domain classification\<close>

subsection \<open>Dictionary comprehension and maximum\<close>

lemma dict_set_absent: "k \<notin> fst ` set d \<Longrightarrow> dict_set d k v = d @ [(k, v)]"
  by (induction d) auto

lemma dict_set_same: "(k, v) \<in> set d \<Longrightarrow> \<forall>e\<in>set d. snd e = f (fst e) \<Longrightarrow> dict_set d k (f k) = d"
  by (induction d) auto

lemma dict_comp_step:
  "dict_set (map (\<lambda>k. (k, f k)) ks) k (f k) = map (\<lambda>k. (k, f k)) (add_key ks k)"
proof (cases "k \<in> set ks")
  case True
  then have "(k, f k) \<in> set (map (\<lambda>k. (k, f k)) ks)" by auto
  then have "dict_set (map (\<lambda>k. (k, f k)) ks) k (f k) = map (\<lambda>k. (k, f k)) ks"
    by (rule dict_set_same) auto
  with True show ?thesis by (simp add: add_key_def)
next
  case False
  then have "k \<notin> fst ` set (map (\<lambda>k. (k, f k)) ks)" by force
  then show ?thesis using False by (simp add: dict_set_absent add_key_def)
qed

lemma dict_comp_foldl:
  "foldl (\<lambda>d k. dict_set d k (f k)) (map (\<lambda>k. (k, f k)) ks) ls
   = map (\<lambda>k. (k, f k)) (foldl add_key ks ls)"
  by (induction ls arbitrary: ks) (simp_all add: dict_comp_step)

lemma dict_comp_keys: "dict_comp f ls = map (\<lambda>k. (k, f k)) (foldl add_key [] ls)"
  using dict_comp_foldl [of f "[]" ls] by (simp add: dict_comp_def)


lemma add_keys_set: "set (foldl add_key ks ls) = set ks \<union> set ls"
  by (induction ls arbitrary: ks) (auto simp: add_key_def)




lemma map_of_comp:
  "map_of (map (\<lambda>k. (k, f k)) ks) k = (if k \<in> set ks then Some (f k) else None)"
  by (induction ks) auto

lemma dict_comp_lookup: "k \<in> set ks \<Longrightarrow> map_of (dict_comp f ks) k = Some (f k)"
  by (simp add: dict_comp_keys map_of_comp add_keys_set)

subsection \<open>The keyword strategy\<close>










text \<open>
  C9: when the override file is missing, cannot be read, is not JSON, or holds a JSON
  value that is not an object, \<open>_load_external_lexicon\<close> returns \<^verbatim>\<open>None\<close> (the
  exceptions of the \<^verbatim>\<open>try\<close> block do not reach the caller) and the module keeps
  the built-in lexicon and labels.
\<close>

theorem load_external_lexicon_never_fails:
  assumes "file = Missing \<or> file = Unreadable \<or> file = Malformed
           \<or> (\<exists>j. file = Parsed j \<and> \<not> is_dict j)"
  shows "load_external_lexicon str_of file = None
         \<and> module_lexicon str_of file = (KEYWORD_LEXICON, DEFAULT_DOMAIN_LABELS)"
  using assms
  by (auto simp: load_external_lexicon_def load_external_lexicon_try_def module_lexicon_def)

lemma module_labels_nonempty: "snd (module_lexicon str_of file) \<noteq> []"
  by (auto simp: module_lexicon_def DEFAULT_DOMAIN_LABELS_def split: option.splits)

subsection \<open>Concrete runs\<close>





lemma override_with_other:
  "module_lexicon str_of (Parsed (JObj [(''other'', JArr [JStr ''Misc''])]))
   = ([(''Other'', [''misc''])], [''Other''])"
proof -
  have "normalize_label ''other'' = ''Other''" by code_simp
  moreover have "py_strip ''Misc'' = ''Misc''" "py_lower ''Misc'' = ''misc''" by code_simp+
  ultimately show ?thesis
    by (simp add: module_lexicon_def load_external_lexicon_def load_external_lexicon_try_def
        is_dict_def dict_items_def lexicon_add_def py_str_def)
qed


theorem load_external_lexicon_never_fails_witness:
  "load_external_lexicon (\<lambda>j. []) Missing = None
   \<and> load_external_lexicon (\<lambda>j. []) Unreadable = None
   \<and> load_external_lexicon (\<lambda>j. []) Malformed = None
   \<and> \<not> is_dict (JArr [JStr ''Politics''])
   \<and> load_external_lexicon (\<lambda>j. []) (Parsed (JArr [JStr ''Politics''])) = None
   \<and> module_lexicon (\<lambda>j. []) (Parsed (JArr [JStr ''Politics'']))
       = (KEYWORD_LEXICON, DEFAULT_DOMAIN_LABELS)"
  using load_external_lexicon_never_fails [of Missing "\<lambda>j. []"]
    load_external_lexicon_never_fails [of Unreadable "\<lambda>j. []"]
    load_external_lexicon_never_fails [of Malformed "\<lambda>j. []"]
    load_external_lexicon_never_fails [of "Parsed (JArr [JStr ''Politics''])" "\<lambda>j. []"]
  by (simp add: is_dict_def)



section \<open>Properties of the fetch client\<close>

subsection \<open>The pagination loop\<close>


lemma loop_terminates:
  assumes np: "no_empty_page_with_token client"
  shows "\<exists>out s. get_user_tweets_loop client base sent collected token remaining = Some (out, s)
           \<and> length s \<le> length sent + nat remaining"
proof (induction "nat remaining" arbitrary: sent collected token remaining rule: less_induct)
  case less
  show ?case
  proof (cases "0 < remaining")
    case False
    then show ?thesis by (subst get_user_tweets_loop.simps) simp
  next
    case True
    define req where "req = base\<lparr>max_results := min 100 remaining, pagination_token := token\<rparr>"
    show ?thesis
    proof (cases "client (sent @ [req])")
      case (Inl e)
      with True show ?thesis
        by (subst get_user_tweets_loop.simps) (simp add: req_def Let_def)
    next
      case (Inr resp)
      show ?thesis
      proof (cases "data resp")
        case None
        with True Inr show ?thesis
          by (subst get_user_tweets_loop.simps) (simp add: req_def Let_def)
      next
        case (Some page)
        show ?thesis
        proof (cases "str_truthy (next_token resp)")
          case False
          with True Inr Some show ?thesis
            by (subst get_user_tweets_loop.simps) (simp add: req_def Let_def)
        next
          case t: True
          have "page \<noteq> []"
            using np Inr Some t unfolding no_empty_page_with_token_def by blast
          then have lt: "nat (remaining - int (length page)) < nat remaining"
            using True by (cases page) auto
          from less [OF lt, of "sent @ [req]" "collected @ page" "next_token resp"]
          obtain out s where
            r: "get_user_tweets_loop client base (sent @ [req]) (collected @ page)
                  (next_token resp) (remaining - int (length page)) = Some (out, s)"
            and l: "length s \<le> length (sent @ [req]) + nat (remaining - int (length page))"
            by blast
          have "get_user_tweets_loop client base sent collected token remaining = Some (out, s)"
            using True Inr Some t r
            by (subst get_user_tweets_loop.simps) (simp add: req_def Let_def)
          moreover have "length (sent @ [req]) = length sent + 1" by simp
          with l lt have "length s \<le> length sent + nat remaining"
            by linarith
          ultimately show ?thesis by blast
        qed
      qed
    qed
  qed
qed

lemma loop_diverges:
  assumes "get_user_tweets_loop client base sent collected token remaining = Some y"
  shows "client = empty_pages \<longrightarrow> 0 < remaining \<longrightarrow> False"
proof (rule get_user_tweets_loop.raw_induct
    [where P = "\<lambda>client base sent collected token remaining y.
       client = empty_pages \<longrightarrow> 0 < remaining \<longrightarrow> False", OF _ assms],
    goal_cases)
  case (1 loop client base sent collected token remaining y)
  show ?case
  proof (intro impI)
    assume c: "client = empty_pages" and r: "0 < remaining"
    from 1(2) c r
    have "loop client base (sent @ [base\<lparr>max_results := min 100 remaining, pagination_token := token\<rparr>])
            collected (Some ''t'') remaining = Some y"
      by (simp add: empty_pages_def Let_def next_token_def str_truthy_def)
    from 1(1) [OF this] c r show False by simp
  qed
qed

lemma loop_stops:
  assumes "0 < remaining"
    and "client (sent @ [base\<lparr>max_results := min 100 remaining, pagination_token := token\<rparr>])
           = Inr resp"
    and "data resp = None \<or> \<not> str_truthy (next_token resp)"
  shows "get_user_tweets_loop client base sent collected token remaining
         = Some (Inr (collected @ (case data resp of None \<Rightarrow> [] | Some page \<Rightarrow> page)),
                 sent @ [base\<lparr>max_results := min 100 remaining, pagination_token := token\<rparr>])"
  using assms
  by (subst get_user_tweets_loop.simps) (auto simp: Let_def split: option.splits)

lemma loop_finite:
  assumes fin: "pagination_ends_by n client"
  shows "\<exists>out s. get_user_tweets_loop client base sent collected token remaining = Some (out, s)
           \<and> length s \<le> max (length sent + 1) n"
proof (induction "n - length sent" arbitrary: sent collected token remaining rule: less_induct)
  case less
  show ?case
  proof (cases "0 < remaining")
    case False
    then show ?thesis by (subst get_user_tweets_loop.simps) simp
  next
    case True
    define req where "req = base\<lparr>max_results := min 100 remaining, pagination_token := token\<rparr>"
    show ?thesis
    proof (cases "client (sent @ [req])")
      case (Inl e)
      with True show ?thesis
        by (subst get_user_tweets_loop.simps) (simp add: req_def Let_def)
    next
      case (Inr resp)
      show ?thesis
      proof (cases "data resp = None \<or> \<not> str_truthy (next_token resp)")
        case stop: True
        from True Inr stop
          loop_stops [where client = client and base = base and sent = sent and token = token
            and remaining = remaining and resp = resp and collected = collected]
        show ?thesis by (simp add: req_def)
      next
        case False
        then obtain page where page: "data resp = Some page"
          and t: "str_truthy (next_token resp)" by auto
        have "\<not> n \<le> length (sent @ [req])"
          using fin Inr False unfolding pagination_ends_by_def by blast
        then have lt: "n - length (sent @ [req]) < n - length sent" by simp
        from less [OF lt, of "collected @ page" "next_token resp" "remaining - int (length page)"]
        obtain out s where
          r: "get_user_tweets_loop client base (sent @ [req]) (collected @ page)
                (next_token resp) (remaining - int (length page)) = Some (out, s)"
          and l: "length s \<le> max (length (sent @ [req]) + 1) n"
          by blast
        have "get_user_tweets_loop client base sent collected token remaining = Some (out, s)"
          using True Inr page t r
          by (subst get_user_tweets_loop.simps) (simp add: req_def Let_def)
        moreover have "length s \<le> max (length sent + 1) n"
          using l \<open>\<not> n \<le> length (sent @ [req])\<close> by simp
        ultimately show ?thesis by blast
      qed
    qed
  qed
qed



lemma two_pages_progress: "no_empty_page_with_token two_pages"
  by (auto simp: no_empty_page_with_token_def two_pages_def Let_def next_token_def str_truthy_def
      split: if_splits option.splits)




lemma get_user_tweets_bounded_by_remaining:
  assumes "no_empty_page_with_token client"
  shows "\<exists>out sent'.
           get_user_tweets client uid max_res exclude_replies exclude_retweets start end
             = Some (out, sent')
           \<and> int (length sent') \<le> max 1 max_res"
proof -
  obtain base where g: "get_user_tweets client uid max_res exclude_replies exclude_retweets start end
    = get_user_tweets_loop client base [] [] None (max 1 max_res)"
    by (simp add: get_user_tweets_def Let_def)
  from loop_terminates [OF assms, of base "[]" "[]" None "max 1 max_res"]
  obtain out s where "get_user_tweets_loop client base [] [] None (max 1 max_res) = Some (out, s)"
    and "length s \<le> length ([] :: tweets_request list) + nat (max 1 max_res)"
    by blast
  then have "get_user_tweets client uid max_res exclude_replies exclude_retweets start end
             = Some (out, s) \<and> int (length s) \<le> max 1 max_res"
    using g by simp
  then show ?thesis by blast
qed

text \<open>
  C5 (as amended): while \<open>remaining > 0\<close>, a response without data (\<^verbatim>\<open>None\<close>)
  or without a continuation token (absent or empty) ends the loop with this request as
  the last one; and for every upstream API whose pagination ends by the \<open>n\<close>-th request,
  \<open>get_user_tweets\<close> returns after at most \<open>max(1, n)\<close> requests.
\<close>

theorem pagination_stops:
  "(0 < remaining
      \<and> client (sent @ [base\<lparr>max_results := min 100 remaining, pagination_token := token\<rparr>])
          = Inr resp
      \<and> (data resp = None \<or> \<not> str_truthy (next_token resp))
    \<longrightarrow> get_user_tweets_loop client base sent collected token remaining
          = Some (Inr (collected @ (case data resp of None \<Rightarrow> [] | Some page \<Rightarrow> page)),
                  sent @ [base\<lparr>max_results := min 100 remaining, pagination_token := token\<rparr>]))
   \<and> (pagination_ends_by n client
    \<longrightarrow> (\<exists>out sent'.
           get_user_tweets client uid max_res exclude_replies exclude_retweets start end
             = Some (out, sent')
           \<and> length sent' \<le> max 1 n))"
proof (intro conjI impI)
  assume "0 < remaining
      \<and> client (sent @ [base\<lparr>max_results := min 100 remaining, pagination_token := token\<rparr>])
          = Inr resp
      \<and> (data resp = None \<or> \<not> str_truthy (next_token resp))"
  then show "get_user_tweets_loop client base sent collected token remaining
          = Some (Inr (collected @ (case data resp of None \<Rightarrow> [] | Some page \<Rightarrow> page)),
                  sent @ [base\<lparr>max_results := min 100 remaining, pagination_token := token\<rparr>])"
    using loop_stops by blast
next
  assume fin: "pagination_ends_by n client"
  obtain base where g: "get_user_tweets client uid max_res exclude_replies exclude_retweets start end
    = get_user_tweets_loop client base [] [] None (max 1 max_res)"
    by (simp add: get_user_tweets_def Let_def)
  from loop_finite [OF fin, of base "[]" "[]" None "max 1 max_res"]
  obtain out s where "get_user_tweets_loop client base [] [] None (max 1 max_res) = Some (out, s)"
    and "length s \<le> max (length ([] :: tweets_request list) + 1) n"
    by blast
  then have "get_user_tweets client uid max_res exclude_replies exclude_retweets start end
             = Some (out, s) \<and> length s \<le> max 1 n"
    using g by simp
  then show "\<exists>out sent'.
           get_user_tweets client uid max_res exclude_replies exclude_retweets start end
             = Some (out, sent')
           \<and> length sent' \<le> max 1 n"
    by blast
qed

text \<open>
  The claim as stated fails for a response that returns no items in the form of an
  empty list: the loop only ends on \<^verbatim>\<open>resp.data is None\<close>. With a token on every
  such page the loop never ends.
\<close>

theorem pagination_diverges_on_empty_pages:
  "get_user_tweets empty_pages ''42'' 10 True True None None = None"
proof (cases "get_user_tweets empty_pages ''42'' 10 True True None None")
  case None
  then show ?thesis .
next
  case (Some y)
  then obtain base where
    "get_user_tweets_loop empty_pages base [] [] None 10 = Some y"
    by (simp add: get_user_tweets_def Let_def)
  from loop_diverges [OF this] show ?thesis by simp
qed

lemma finite_feed_ends: "pagination_ends_by 2 finite_feed"
  by (auto simp: pagination_ends_by_def finite_feed_def next_token_def str_truthy_def
      split: if_splits)

lemma finite_feed_run:
  "get_user_tweets finite_feed ''42'' 10 True True None None
   = Some (Inr [''p1'', ''p2'', ''p3''], [request_42 10 None, request_42 8 (Some ''page2'')])"
  by (simp add: get_user_tweets_def get_user_tweets_loop.simps finite_feed_def request_42_def
      next_token_def str_truthy_def Let_def)

theorem pagination_stops_witness:
  "0 < (1::int)
   \<and> two_pages ([request_42 3 None] @ [request_42 1 (Some ''page2'')])
       = Inr \<lparr>data = Some [''p3''], meta = [(''result_count'', ''2'')]\<rparr>
   \<and> \<not> str_truthy (next_token \<lparr>data = Some [''p3''], meta = [(''result_count'', ''2'')]\<rparr>)
   \<and> get_user_tweets_loop two_pages (request_42 0 None) [request_42 3 None] [''p1'', ''p2'']
        (Some ''page2'') 1
       = Some (Inr [''p1'', ''p2'', ''p3''], [request_42 3 None, request_42 1 (Some ''page2'')])
   \<and> pagination_ends_by 2 finite_feed
   \<and> (\<exists>out sent'. get_user_tweets finite_feed ''42'' 10 True True None None = Some (out, sent')
         \<and> length sent' \<le> max 1 2)"
proof -
  have a: "(0::int) < 1" by simp
  have b: "two_pages ([request_42 3 None]
             @ [(request_42 0 None)\<lparr>max_results := min 100 1, pagination_token := Some ''page2''\<rparr>])
           = Inr \<lparr>data = Some [''p3''], meta = [(''result_count'', ''2'')]\<rparr>"
    by (simp add: two_pages_def request_42_def)
  have c: "\<not> str_truthy (next_token \<lparr>data = Some [''p3''], meta = [(''result_count'', ''2'')]\<rparr>)"
    by (simp add: next_token_def str_truthy_def)
  have r: "(request_42 0 None)\<lparr>max_results := 1, pagination_token := Some ''page2''\<rparr>
           = request_42 1 (Some ''page2'')"
    by (simp add: request_42_def)
  note t = pagination_stops [where remaining = 1 and client = two_pages
      and sent = "[request_42 3 None]" and base = "request_42 0 None"
      and token = "Some ''page2''"
      and resp = "\<lparr>data = Some [''p3''], meta = [(''result_count'', ''2'')]\<rparr>"
      and collected = "[''p1'', ''p2'']"]
  note u = pagination_stops [where client = finite_feed and n = 2 and uid = "''42''"
      and max_res = 10 and exclude_replies = True and exclude_retweets = True
      and start = None and ?end = None]
  from t a b c have "get_user_tweets_loop two_pages (request_42 0 None) [request_42 3 None]
        [''p1'', ''p2''] (Some ''page2'') 1
       = Some (Inr [''p1'', ''p2'', ''p3''], [request_42 3 None, request_42 1 (Some ''page2'')])"
    by (simp add: r)
  moreover from u finite_feed_ends
  have "\<exists>out sent'. get_user_tweets finite_feed ''42'' 10 True True None None = Some (out, sent')
         \<and> length sent' \<le> max 1 2"
    by blast
  moreover have "two_pages ([request_42 3 None] @ [request_42 1 (Some ''page2'')])
       = Inr \<lparr>data = Some [''p3''], meta = [(''result_count'', ''2'')]\<rparr>"
    using b by (simp add: r)
  ultimately show ?thesis using a c finite_feed_ends by blast
qed

subsection \<open>Rate limits\<close>

lemma retry_after_429:
  "status_code r = 429 \<Longrightarrow> retry_after_from_response now (TooManyRequests r) = None"
  by (simp add: retry_after_from_response_def exn_response_def response_bool_def)

lemma get_user_by_username_rate_limit:
  "get_user username = Inl (TooManyRequests r) \<Longrightarrow>
   get_user_by_username now get_user username
   = Inl (RateLimitError (retry_after_from_response now (TooManyRequests r)))"
  by (simp add: get_user_by_username_def)

lemma get_user_tweets_propagates:
  assumes "client [\<lparr>user_id = uid, max_results = min 100 (max 1 max_res),
             exclude = Some [''replies'', ''retweets''], start_time = start, end_time = end,
             tweet_fields = [''created_at'', ''public_metrics''], pagination_token = None\<rparr>]
           = Inl e"
  shows "\<exists>sent. get_user_tweets client uid max_res True True start end = Some (Inl e, sent)"
  using assms
  by (simp add: get_user_tweets_def Let_def get_user_tweets_loop.simps)

text \<open>
  C2: \<open>get_user_by_username\<close> turns \<^verbatim>\<open>TooManyRequests\<close> into
  \<open>RateLimitError\<close>, but \<open>get_user_tweets\<close> does not: when the upstream API
  signals too many requests, the function fails with Tweepy's own
  \<^verbatim>\<open>TooManyRequests\<close>, which the caller's \<^verbatim>\<open>except RateLimitError\<close> does not
  catch.
\<close>

theorem get_user_tweets_rate_limit_not_translated:
  "get_user_tweets rate_limited ''42'' 10 True True None None
   = Some (Inl (TooManyRequests rate_limit_response), [request_42 10 None])
   \<and> get_user_by_username 1700000000 (\<lambda>u. Inl (TooManyRequests rate_limit_response)) ''bob''
       = (Inl (RateLimitError None) :: exn + string option)"
  by (simp add: get_user_tweets_def get_user_tweets_loop.simps rate_limited_def request_42_def
      Let_def get_user_by_username_def retry_after_429 rate_limit_response_def)

text \<open>
  C6: for the response of a rate limit, status 429 with the header \<open>retry-after: 30\<close>,
  \<open>_retry_after_from_response\<close> returns \<^verbatim>\<open>None\<close> and not 30: the test
  \<^verbatim>\<open>not resp\<close> is true for every response with an error status, so the headers are
  never read.
\<close>

theorem retry_after_hint_lost:
  "retry_after_from_response 1700000000 (TooManyRequests rate_limit_response) = None
   \<and> header_get (headers rate_limit_response) ''retry-after'' = Some ''30''"
proof -
  have "header_get (headers rate_limit_response) ''retry-after'' = Some ''30''"
    by code_simp
  then show ?thesis
    by (simp add: retry_after_from_response_def exn_response_def response_bool_def
        rate_limit_response_def)
qed

lemma retry_after_priority:
  assumes "response_bool r"
  shows "retry_after_from_response now (TooManyRequests r)
         = (let ra = str_or (header_get (headers r) ''retry-after'')
                           (header_get (headers r) ''Retry-After'');
                re = str_or (header_get (headers r) ''x-rate-limit-reset'')
                           (header_get (headers r) ''X-Rate-Limit-Reset'')
            in if str_truthy ra \<and> py_isdigit (the ra) then Some (py_int (the ra))
               else if str_truthy re \<and> py_isdigit (the re)
                    then Some (max 0 (py_int (the re) - now))
               else None)"
  using assms by (simp add: retry_after_from_response_def exn_response_def Let_def)

lemma retry_after_samples:
  "retry_after_from_response 1000
     (TooManyRequests \<lparr>status_code = 200, headers = [(''Retry-After'', ''30'')]\<rparr>) = Some 30"
  "retry_after_from_response 1000
     (TooManyRequests \<lparr>status_code = 200, headers = [(''x-rate-limit-reset'', ''1045'')]\<rparr>)
   = Some 45"
  "retry_after_from_response 1000
     (TooManyRequests \<lparr>status_code = 200, headers = [(''x-rate-limit-reset'', ''900'')]\<rparr>)
   = Some 0"
  "retry_after_from_response 1000 (TooManyRequests \<lparr>status_code = 200, headers = []\<rparr>) = None"
  by code_simp+

section \<open>Properties of the sentiment labelling\<close>

lemma thresholds_disjoint:
  "\<not> (float_ge c lit_0_05 \<and> float_le c lit_neg_0_05)"
  by (cases c) (simp_all add: lit_0_05_def lit_neg_0_05_def)

text \<open>
  C1: for every float \<open>compound\<close> the label is Positive exactly when
  \<open>compound >= 0.05\<close>, Negative exactly when \<open>compound <= -0.05\<close> and Neutral exactly
  in the remaining case (a NaN included); both thresholds are inclusive, and the result
  is always one of the three labels.
\<close>

theorem score_to_label_thresholds:
  "(score_to_label c = ''Positive'') = float_ge c lit_0_05
   \<and> (score_to_label c = ''Negative'') = float_le c lit_neg_0_05
   \<and> (score_to_label c = ''Neutral'')
       = (\<not> float_ge c lit_0_05 \<and> \<not> float_le c lit_neg_0_05)
   \<and> score_to_label lit_0_05 = ''Positive''
   \<and> score_to_label lit_neg_0_05 = ''Negative''
   \<and> score_to_label c \<in> {''Positive'', ''Negative'', ''Neutral''}"
proof -
  have "\<not> (float_ge c lit_0_05 \<and> float_ge lit_neg_0_05 c)"
    using thresholds_disjoint [of c] by simp
  moreover have "float_ge lit_0_05 lit_0_05" "float_ge lit_neg_0_05 lit_neg_0_05"
    "\<not> float_ge lit_neg_0_05 lit_0_05"
    by (simp_all add: lit_0_05_def lit_neg_0_05_def)
  ultimately show ?thesis
    by (auto simp: score_to_label_def)
qed

end
